theory Spec2Isabelle
  imports Complex_Main "HOL-Library.Word" "HOL-Library.Log_Nat"
begin

unbundle bit_operations_syntax

section \<open>Data model\<close>

text \<open>
  The embedding follows \<^verbatim>\<open>scout_base.cpp\<close> (namespace \<^verbatim>\<open>wescore\<close>). The class
  declaration, the message structs and the two codecs live in headers that the
  translation unit includes; where the code only uses such a declaration, the
  model takes field names and their order of use from the accesses in the source.

  Numbers. A \<^verbatim>\<open>uint8_t\<close> is an \<open>8 word\<close>, a \<^verbatim>\<open>uint16_t\<close> a \<open>16 word\<close>, an
  \<^verbatim>\<open>int32_t\<close> a \<open>32 word\<close>. An expression of C++ type \<^verbatim>\<open>int\<close> whose value cannot
  leave the range of \<^verbatim>\<open>int\<close> is an \<open>int\<close>.

  Doubles. A field of the robot state that the reducer computes is the
  \<open>real\<close> number which its one division of an integer by 1000 or by 10 yields,
  unrounded. The doubles that the command setter receives, compares, divides
  and multiplies are values of the type \<open>double\<close> below, and the two operations
  round as binary64 does.
\<close>

type_synonym uint8_t = "8 word"
type_synonym uint16_t = "16 word"
type_synonym int32_t = "32 word"

text \<open>
  A value of \<^verbatim>\<open>double\<close>: a finite number, an infinity or a NaN. The finite values
  of the program are the rationals that binary64 represents. Zero has no sign
  here: the two zeros compare equal, convert to the same integer, and differ in
  a quotient only by the sign of an infinity.
\<close>

datatype double = Finite rat | PInf | NInf | NaN

subsection \<open>Status messages\<close>

text \<open>
  A two-byte field of a status payload, read in the source as
  \<^verbatim>\<open>msg.msg.status.<field>.low_byte\<close> and \<^verbatim>\<open>.high_byte\<close>.
\<close>

record byte_pair =
  high_byte :: uint8_t
  low_byte :: uint8_t

text \<open>
  The payloads. The source reaches every field through \<^verbatim>\<open>msg.msg.status\<close>; the
  records hold the fields of that innermost struct which \<^verbatim>\<open>UpdateScoutState\<close>
  reads.
\<close>

record MotionStatusMessage =
  linear_velocity :: byte_pair
  angular_velocity :: byte_pair

record LightStatusMessage =
  light_ctrl_enable :: uint8_t
  front_light_mode :: uint8_t
  front_light_custom :: uint8_t
  rear_light_mode :: uint8_t
  rear_light_custom :: uint8_t

record SystemStatusMessage =
  base_state :: uint8_t
  control_mode :: uint8_t
  battery_voltage :: byte_pair
  fault_code :: byte_pair

record MotorDriverStatusMessage =
  current :: byte_pair
  rpm :: byte_pair
  temperature :: uint8_t

text \<open>
  The tag \<^verbatim>\<open>updated_msg_type\<close>. The \<^verbatim>\<open>switch\<close> of \<^verbatim>\<open>UpdateScoutState\<close> names
  seven enumerators and has no \<^verbatim>\<open>default\<close>; \<open>ScoutStatusMsgTypeOther v\<close> stands
  for a tag of any other value \<open>v\<close>.
\<close>

datatype ScoutStatusMsgType =
    ScoutMotionStatusMsg
  | ScoutLightStatusMsg
  | ScoutSystemStatusMsg
  | ScoutMotor1DriverStatusMsg
  | ScoutMotor2DriverStatusMsg
  | ScoutMotor3DriverStatusMsg
  | ScoutMotor4DriverStatusMsg
  | ScoutStatusMsgTypeOther nat

record ScoutStatusMessage =
  updated_msg_type :: ScoutStatusMsgType
  motion_status_msg :: MotionStatusMessage
  light_status_msg :: LightStatusMessage
  system_status_msg :: SystemStatusMessage
  motor_driver_status_msg :: MotorDriverStatusMessage

subsection \<open>Robot state\<close>

record LightState =
  mode :: uint8_t
  custom_value :: uint8_t

text \<open>
  \<open>rpm\<close> holds the value of the \<^verbatim>\<open>int16_t\<close> the source computes, \<open>temperature\<close> the
  byte of the message as it is.
\<close>

record MotorState =
  current :: real
  rpm :: int
  temperature :: uint8_t

text \<open>
  \<^verbatim>\<open>ScoutState\<close>. \<open>motor_states\<close> is the array the source indexes with 0 to 3.
\<close>

record ScoutState =
  base_state :: uint8_t
  control_mode :: uint8_t
  fault_code :: uint16_t
  battery_voltage :: real
  motor_states :: "MotorState list"
  light_control_enabled :: bool
  front_light_state :: LightState
  rear_light_state :: LightState
  linear_velocity :: real
  angular_velocity :: real

subsection \<open>CAN frames\<close>

text \<open>The fields of \<^verbatim>\<open>struct can_frame\<close> that \<^verbatim>\<open>ParseCANFrame\<close> reads.\<close>

record can_frame =
  can_id :: "32 word"
  can_dlc :: uint8_t
  data :: "uint8_t list"

text \<open>What \<^verbatim>\<open>ParseCANFrame\<close> did with a frame: the early \<^verbatim>\<open>return\<close> after the
  message on \<^verbatim>\<open>std::cerr\<close> (with the frame's id), or the call of the reducer.\<close>

datatype rx_outcome = Discarded "32 word" | Forwarded

subsection \<open>Commands\<close>

text \<open>
  \<^verbatim>\<open>ScoutMotionCmd::FaultClearFlag\<close> and the light mode of \<^verbatim>\<open>ScoutLightCmd\<close> are
  enumerations of a header; a value of either is the number of its enumerator.
\<close>

type_synonym FaultClearFlag = "32 word"
type_synonym LightMode = "32 word"

text \<open>
  \<^verbatim>\<open>ScoutMotionCmd\<close>, as \<^verbatim>\<open>SetMotionCommand\<close> writes it: the two velocity fields
  receive the result of a \<^verbatim>\<open>static_cast<uint8_t>\<close>, kept here as the eight bits.
\<close>

record ScoutMotionCmd =
  linear_velocity :: uint8_t
  angular_velocity :: uint8_t
  fault_clear_flag :: FaultClearFlag

record ScoutLightCmd =
  front_mode :: LightMode
  front_custom_value :: uint8_t
  rear_mode :: LightMode
  rear_custom_value :: uint8_t

text \<open>
  The command messages \<^verbatim>\<open>SendMotionCmd\<close> and \<^verbatim>\<open>SendLightCmd\<close> fill: \<open>msg_id\<close> is
  the member \<^verbatim>\<open>id\<close>, the other fields are those of \<^verbatim>\<open>msg.cmd\<close>. A field the
  function assigns on some paths only is an option, \<open>None\<close> where no statement
  assigned it.
\<close>

record MotionControlMessage =
  msg_id :: "32 word option"
  control_mode :: "uint8_t option"
  fault_clear_flag :: uint8_t
  linear_velocity_cmd :: uint8_t
  angular_velocity_cmd :: uint8_t
  reserved0 :: uint8_t
  reserved1 :: uint8_t
  count :: uint8_t
  checksum :: "uint8_t option"

record LightControlMessage =
  msg_id :: "32 word option"
  light_ctrl_enable :: uint8_t
  front_light_mode :: uint8_t
  front_light_custom :: uint8_t
  rear_light_mode :: uint8_t
  rear_light_custom :: uint8_t
  reserved0 :: uint8_t
  count :: uint8_t
  checksum :: "uint8_t option"

text \<open>What one call of a send function hands to a transport, and to which.\<close>

datatype transport = CAN | Serial

datatype sent =
    SentMotion transport MotionControlMessage
  | SentLight transport LightControlMessage

subsection \<open>What the included headers declare\<close>

text \<open>
  The constants and functions that \<^verbatim>\<open>scout_base.cpp\<close> uses and other files of the
  SDK define. Every function of the model that needs one of them takes this
  record as its first argument. \<open>motion_raw\<close> and \<open>motion_len\<close> are the members
  \<^verbatim>\<open>msg.raw\<close> and \<^verbatim>\<open>len\<close> of a motion command message as filled so far (likewise
  for light); \<open>serial_opens\<close> tells whether \<^verbatim>\<open>ASyncSerial::open\<close> succeeds on a
  device at a baud rate.
\<close>

record header =
  LIGHT_DISABLE_CTRL :: uint8_t
  LIGHT_ENABLE_CTRL :: uint8_t
  LIGHT_MODE_CONST_OFF :: uint8_t
  CTRL_MODE_CMD_CAN :: uint8_t
  CTRL_MODE_CMD_UART :: uint8_t
  CAN_MSG_MOTION_CONTROL_CMD_ID :: "32 word"
  FRAME_MOTION_CONTROL_CMD_ID :: "32 word"
  CAN_MSG_LIGHT_CONTROL_CMD_ID :: "32 word"
  FRAME_LIGHT_CONTROL_CMD_ID :: "32 word"
  min_linear_velocity :: double
  max_linear_velocity :: double
  min_angular_velocity :: double
  max_angular_velocity :: double
  Agilex_CANMsgChecksum :: "32 word \<Rightarrow> uint8_t list \<Rightarrow> uint8_t \<Rightarrow> uint8_t"
  UnpackScoutCANFrameToMsg :: "can_frame \<Rightarrow> ScoutStatusMessage"
  motion_raw :: "MotionControlMessage \<Rightarrow> uint8_t list"
  motion_len :: uint8_t
  light_raw :: "LightControlMessage \<Rightarrow> uint8_t list"
  light_len :: uint8_t
  serial_opens :: "string \<Rightarrow> int32_t \<Rightarrow> bool"

subsection \<open>The object\<close>

text \<open>The transports, as far as the class observes them.\<close>

datatype callback = ParseCANFrame_callback | ParseUARTBuffer_callback

record ASyncCAN =
  can_if_name :: string
  can_receive_callback :: "callback option"

record ASyncSerial =
  uart_name :: string
  baud_rate :: int32_t
  is_open :: bool
  serial_receive_callback :: "callback option"

text \<open>
  The members of \<^verbatim>\<open>ScoutBase\<close> the source reads or writes, each without the
  underscore that ends its name in the source. A \<^verbatim>\<open>shared_ptr\<close> is an
  option, \<open>None\<close> when empty. \<open>serial_parser_callback_set\<close> records
  \<^verbatim>\<open>serial_parser_.SetReceiveCallback\<close>. The mutexes are not modelled: every
  function of the model runs as one step.
\<close>

record ScoutBase =
  can_if :: "ASyncCAN option"
  serial_if :: "ASyncSerial option"
  can_connected :: bool
  serial_connected :: bool
  serial_parser_callback_set :: bool
  cmd_thread_started :: bool
  current_motion_cmd :: ScoutMotionCmd
  current_light_cmd :: ScoutLightCmd
  light_ctrl_enabled :: bool
  light_ctrl_requested :: bool
  scout_state :: ScoutState

text \<open>
  Undefined behaviour of the C++ program, as an error value: the call of a member
  through an empty \<^verbatim>\<open>shared_ptr\<close>, and the conversion of a \<^verbatim>\<open>double\<close> to
  \<^verbatim>\<open>uint8_t\<close> whose truncated value is not between 0 and 255.
\<close>

datatype error = NullTransport | UndefinedConversion

section \<open>The status reducer\<close>

text \<open>
  \<^verbatim>\<open>static_cast<uint16_t>(low_byte) | static_cast<uint16_t>(high_byte) << 8\<close>:
  both operands are promoted to \<^verbatim>\<open>int\<close>, the shift binds tighter than the
  bitwise or, and the result is an \<^verbatim>\<open>int\<close> between 0 and 65535.
\<close>

definition assemble_bytes :: "byte_pair \<Rightarrow> int" where
  "assemble_bytes p = uint (low_byte p) OR push_bit 8 (uint (high_byte p))"

text \<open>\<^verbatim>\<open>static_cast<int16_t>(e)\<close> of an \<^verbatim>\<open>int\<close>: the value modulo \<open>2^16\<close>, read as
  two's complement.\<close>

definition to_int16 :: "int \<Rightarrow> int" where
  "to_int16 e = sint (word_of_int e :: 16 word)"

text \<open>
  The three statements of a motor case, for the slot \<open>i\<close> the case names.
  The array has four elements in the program; a shorter list is left as it is.
\<close>

definition update_motor :: "nat \<Rightarrow> MotorDriverStatusMessage \<Rightarrow> MotorState list \<Rightarrow> MotorState list" where
  "update_motor i msg ms =
     (if i < length ms then
        ms[i := (ms ! i)\<lparr>
          MotorState.current := real_of_int (assemble_bytes (MotorDriverStatusMessage.current msg)) / 10,
          MotorState.rpm := to_int16 (assemble_bytes (MotorDriverStatusMessage.rpm msg)),
          MotorState.temperature := MotorDriverStatusMessage.temperature msg\<rparr>]
      else ms)"

text \<open>
  \<^verbatim>\<open>ScoutBase::UpdateScoutState\<close>: the new value of the state passed by reference.
\<close>

definition UpdateScoutState :: "header \<Rightarrow> ScoutStatusMessage \<Rightarrow> ScoutState \<Rightarrow> ScoutState" where
  "UpdateScoutState h status_msg state =
     (case updated_msg_type status_msg of
        ScoutMotionStatusMsg \<Rightarrow>
          (let msg = motion_status_msg status_msg in
           state\<lparr>
             ScoutState.linear_velocity :=
               real_of_int (to_int16 (assemble_bytes (MotionStatusMessage.linear_velocity msg))) / 1000,
             ScoutState.angular_velocity :=
               real_of_int (to_int16 (assemble_bytes (MotionStatusMessage.angular_velocity msg))) / 1000\<rparr>)
      | ScoutLightStatusMsg \<Rightarrow>
          (let msg = light_status_msg status_msg in
           state\<lparr>
             light_control_enabled := (if LightStatusMessage.light_ctrl_enable msg = LIGHT_DISABLE_CTRL h then False else True),
             front_light_state := (front_light_state state)\<lparr>
               mode := LightStatusMessage.front_light_mode msg,
               custom_value := LightStatusMessage.front_light_custom msg\<rparr>,
             rear_light_state := (rear_light_state state)\<lparr>
               mode := LightStatusMessage.rear_light_mode msg,
               custom_value := LightStatusMessage.rear_light_custom msg\<rparr>\<rparr>)
      | ScoutSystemStatusMsg \<Rightarrow>
          (let msg = system_status_msg status_msg in
           state\<lparr>
             ScoutState.control_mode := SystemStatusMessage.control_mode msg,
             ScoutState.base_state := SystemStatusMessage.base_state msg,
             ScoutState.battery_voltage :=
               real_of_int (assemble_bytes (SystemStatusMessage.battery_voltage msg)) / 10,
             ScoutState.fault_code := word_of_int (assemble_bytes (SystemStatusMessage.fault_code msg))\<rparr>)
      | ScoutMotor1DriverStatusMsg \<Rightarrow>
          state\<lparr>motor_states := update_motor 0 (motor_driver_status_msg status_msg) (motor_states state)\<rparr>
      | ScoutMotor2DriverStatusMsg \<Rightarrow>
          state\<lparr>motor_states := update_motor 1 (motor_driver_status_msg status_msg) (motor_states state)\<rparr>
      | ScoutMotor3DriverStatusMsg \<Rightarrow>
          state\<lparr>motor_states := update_motor 2 (motor_driver_status_msg status_msg) (motor_states state)\<rparr>
      | ScoutMotor4DriverStatusMsg \<Rightarrow>
          state\<lparr>motor_states := update_motor 3 (motor_driver_status_msg status_msg) (motor_states state)\<rparr>
      | ScoutStatusMsgTypeOther v \<Rightarrow> state)"

section \<open>The receive path\<close>

text \<open>\<^verbatim>\<open>ScoutBase::GetScoutState\<close>: a copy of the state.\<close>

definition GetScoutState :: "ScoutBase \<Rightarrow> ScoutState" where
  "GetScoutState b = scout_state b"

text \<open>\<^verbatim>\<open>ScoutBase::NewStatusMsgReceivedCallback\<close>: the reducer, on the member
  \<^verbatim>\<open>scout_state_\<close>.\<close>

definition NewStatusMsgReceivedCallback :: "header \<Rightarrow> ScoutStatusMessage \<Rightarrow> ScoutBase \<Rightarrow> ScoutBase" where
  "NewStatusMsgReceivedCallback h msg b = b\<lparr>scout_state := UpdateScoutState h msg (scout_state b)\<rparr>"

text \<open>
  The condition of \<^verbatim>\<open>ParseCANFrame\<close>,
  \<^verbatim>\<open>!rx_frame->data[7] == Agilex_CANMsgChecksum(...)\<close>. The unary \<^verbatim>\<open>!\<close> binds
  tighter than \<^verbatim>\<open>==\<close>: the left operand is the truth value of
  \<^verbatim>\<open>data[7] == 0\<close>, promoted to the \<^verbatim>\<open>int\<close> 1 or 0, and it is compared with the
  checksum, promoted to \<^verbatim>\<open>int\<close>.
\<close>

definition checksum_condition :: "header \<Rightarrow> can_frame \<Rightarrow> bool" where
  "checksum_condition h rx_frame =
     ((if data rx_frame ! 7 = 0 then (1::int) else 0) =
      uint (Agilex_CANMsgChecksum h (can_id rx_frame) (data rx_frame) (can_dlc rx_frame)))"

text \<open>\<^verbatim>\<open>ScoutBase::ParseCANFrame\<close>. The array \<^verbatim>\<open>data\<close> of a frame has eight bytes.\<close>

definition ParseCANFrame :: "header \<Rightarrow> can_frame \<Rightarrow> ScoutBase \<Rightarrow> rx_outcome \<times> ScoutBase" where
  "ParseCANFrame h rx_frame b =
     (if checksum_condition h rx_frame then (Discarded (can_id rx_frame), b)
      else (Forwarded, NewStatusMsgReceivedCallback h (UnpackScoutCANFrameToMsg h rx_frame) b))"

section \<open>Connecting and disconnecting\<close>

text \<open>\<^verbatim>\<open>ScoutBase::ConfigureCANBus\<close>.\<close>

definition ConfigureCANBus :: "string \<Rightarrow> ScoutBase \<Rightarrow> ScoutBase" where
  "ConfigureCANBus can_if_name' b =
     b\<lparr>can_if := Some \<lparr>can_if_name = can_if_name',
                         can_receive_callback = Some ParseCANFrame_callback\<rparr>,
       can_connected := True\<rparr>"

text \<open>\<^verbatim>\<open>ScoutBase::ConfigureSerial\<close>: \<^verbatim>\<open>serial_connected_\<close> is written only when the
  port is open after \<^verbatim>\<open>open()\<close>.\<close>

definition ConfigureSerial :: "header \<Rightarrow> string \<Rightarrow> int32_t \<Rightarrow> ScoutBase \<Rightarrow> ScoutBase" where
  "ConfigureSerial h uart_name' baud_rate' b =
     (let opened = serial_opens h uart_name' baud_rate' in
      b\<lparr>serial_if := Some \<lparr>uart_name = uart_name', baud_rate = baud_rate', is_open = opened,
                             serial_receive_callback = Some ParseUARTBuffer_callback\<rparr>,
        serial_connected := (if opened then True else serial_connected b),
        serial_parser_callback_set := True\<rparr>)"

text \<open>\<^verbatim>\<open>ScoutBase::Connect\<close>. The line on \<^verbatim>\<open>std::cerr\<close> is not part of the state.\<close>

definition Connect :: "header \<Rightarrow> string \<Rightarrow> int32_t \<Rightarrow> ScoutBase \<Rightarrow> ScoutBase" where
  "Connect h dev_name baud_rate' b =
     (if baud_rate' = 0 then ConfigureCANBus dev_name b
      else ConfigureSerial h dev_name baud_rate' b)"

text \<open>\<^verbatim>\<open>ScoutBase::Disconnect\<close>. \<^verbatim>\<open>close()\<close> leaves the port not open.\<close>

definition Disconnect :: "ScoutBase \<Rightarrow> error + ScoutBase" where
  "Disconnect b =
     (if serial_connected b then
        (case serial_if b of
           None \<Rightarrow> Inl NullTransport
         | Some s \<Rightarrow>
             if is_open s then Inr (b\<lparr>serial_if := Some (s\<lparr>is_open := False\<rparr>)\<rparr>)
             else Inr b)
      else Inr b)"

section \<open>Arithmetic on doubles\<close>





text \<open>\<^verbatim>\<open>a < b\<close> on doubles: false when either is a NaN.\<close>

fun double_less :: "double \<Rightarrow> double \<Rightarrow> bool" where
  "double_less NaN b = False"
| "double_less a NaN = False"
| "double_less (Finite x) (Finite y) = (x < y)"
| "double_less (Finite x) PInf = True"
| "double_less (Finite x) NInf = False"
| "double_less PInf b = False"
| "double_less NInf NInf = False"
| "double_less NInf b = True"



section \<open>The command setters\<close>


text \<open>
  The two \<^verbatim>\<open>if\<close> statements that bound a velocity, in the order of the source.
  A NaN makes both comparisons false and passes unchanged.
\<close>

definition clamp_velocity :: "double \<Rightarrow> double \<Rightarrow> double \<Rightarrow> double" where
  "clamp_velocity min_v max_v vel =
     (let vel1 = (if double_less vel min_v then min_v else vel) in
      if double_less max_v vel1 then max_v else vel1)"




text \<open>\<^verbatim>\<open>ScoutBase::SetLightCommand\<close> and \<^verbatim>\<open>ScoutBase::DisableLightCmdControl\<close>.\<close>

definition SetLightCommand :: "ScoutLightCmd \<Rightarrow> ScoutBase \<Rightarrow> ScoutBase" where
  "SetLightCommand cmd b =
     b\<lparr>current_light_cmd := cmd, light_ctrl_enabled := True, light_ctrl_requested := True\<rparr>"

definition DisableLightCmdControl :: "ScoutBase \<Rightarrow> ScoutBase" where
  "DisableLightCmdControl b = b\<lparr>light_ctrl_enabled := False, light_ctrl_requested := True\<rparr>"

section \<open>The control loop\<close>

text \<open>
  \<^verbatim>\<open>ScoutBase::SendMotionCmd\<close>. The result is what the call hands to the
  transport; the object is not changed (the transmit buffer is not modelled).
  With no CAN connection the function takes the serial branch whether or not a
  serial port was configured.
\<close>

definition SendMotionCmd :: "header \<Rightarrow> uint8_t \<Rightarrow> ScoutBase \<Rightarrow> error + sent" where
  "SendMotionCmd h count' b =
     (let m_msg =
        \<lparr>MotionControlMessage.msg_id =
           (if can_connected b then Some (CAN_MSG_MOTION_CONTROL_CMD_ID h)
            else if serial_connected b then Some (FRAME_MOTION_CONTROL_CMD_ID h)
            else None),
         MotionControlMessage.control_mode =
           (if can_connected b then Some (CTRL_MODE_CMD_CAN h)
            else if serial_connected b then Some (CTRL_MODE_CMD_UART h)
            else None),
         MotionControlMessage.fault_clear_flag =
           ucast (ScoutMotionCmd.fault_clear_flag (current_motion_cmd b)),
         linear_velocity_cmd = ScoutMotionCmd.linear_velocity (current_motion_cmd b),
         angular_velocity_cmd = ScoutMotionCmd.angular_velocity (current_motion_cmd b),
         MotionControlMessage.reserved0 = 0,
         reserved1 = 0,
         MotionControlMessage.count = count',
         MotionControlMessage.checksum = None\<rparr>
      in if can_connected b then
           (case can_if b of
              None \<Rightarrow> Inl NullTransport
            | Some c \<Rightarrow>
                Inr (SentMotion CAN (m_msg\<lparr>MotionControlMessage.checksum :=
                  Some (Agilex_CANMsgChecksum h (CAN_MSG_MOTION_CONTROL_CMD_ID h)
                          (motion_raw h m_msg) (motion_len h))\<rparr>)))
         else
           (case serial_if b of
              None \<Rightarrow> Inl NullTransport
            | Some s \<Rightarrow> Inr (SentMotion Serial m_msg)))"

text \<open>
  \<^verbatim>\<open>ScoutBase::SendLightCmd\<close>. \<^verbatim>\<open>light_ctrl_requested_\<close> is cleared before the
  message is completed and sent.
\<close>

definition SendLightCmd :: "header \<Rightarrow> uint8_t \<Rightarrow> ScoutBase \<Rightarrow> error + (sent \<times> ScoutBase)" where
  "SendLightCmd h count' b =
     (let en = light_ctrl_enabled b;
          l_msg =
        \<lparr>LightControlMessage.msg_id =
           (if can_connected b then Some (CAN_MSG_LIGHT_CONTROL_CMD_ID h)
            else if serial_connected b then Some (FRAME_LIGHT_CONTROL_CMD_ID h)
            else None),
         LightControlMessage.light_ctrl_enable =
           (if en then LIGHT_ENABLE_CTRL h else LIGHT_DISABLE_CTRL h),
         LightControlMessage.front_light_mode =
           (if en then ucast (front_mode (current_light_cmd b)) else LIGHT_MODE_CONST_OFF h),
         LightControlMessage.front_light_custom =
           (if en then front_custom_value (current_light_cmd b) else 0),
         LightControlMessage.rear_light_mode =
           (if en then ucast (rear_mode (current_light_cmd b)) else LIGHT_MODE_CONST_OFF h),
         LightControlMessage.rear_light_custom =
           (if en then rear_custom_value (current_light_cmd b) else 0),
         LightControlMessage.reserved0 = 0,
         LightControlMessage.count = count',
         LightControlMessage.checksum = None\<rparr>;
          b' = b\<lparr>light_ctrl_requested := False\<rparr>
      in if can_connected b then
           (case can_if b of
              None \<Rightarrow> Inl NullTransport
            | Some c \<Rightarrow>
                Inr (SentLight CAN (l_msg\<lparr>LightControlMessage.checksum :=
                  Some (Agilex_CANMsgChecksum h (CAN_MSG_LIGHT_CONTROL_CMD_ID h)
                          (light_raw h l_msg) (light_len h))\<rparr>), b'))
         else
           (case serial_if b of
              None \<Rightarrow> Inl NullTransport
            | Some s \<Rightarrow> Inr (SentLight Serial l_msg, b')))"

text \<open>The two local counters of \<^verbatim>\<open>ControlLoop\<close>.\<close>

record loop_counters =
  cmd_count :: uint8_t
  light_cmd_count :: uint8_t

text \<open>
  One pass through the body of \<^verbatim>\<open>while (true)\<close>: what was sent, in order, the
  counters and the object afterwards. \<^verbatim>\<open>cmd_count++\<close> passes the old value and
  adds one to the \<^verbatim>\<open>uint8_t\<close>, which wraps from 255 to 0. The sleep at the end of
  the body is not modelled.
\<close>

definition ControlLoop_body ::
  "header \<Rightarrow> loop_counters \<Rightarrow> ScoutBase \<Rightarrow> error + (sent list \<times> loop_counters \<times> ScoutBase)" where
  "ControlLoop_body h c b =
     (case SendMotionCmd h (cmd_count c) b of
        Inl e \<Rightarrow> Inl e
      | Inr m \<Rightarrow>
          (let c1 = c\<lparr>cmd_count := cmd_count c + 1\<rparr> in
           if light_ctrl_requested b then
             (case SendLightCmd h (light_cmd_count c1) b of
                Inl e \<Rightarrow> Inl e
              | Inr (l, b') \<Rightarrow> Inr ([m, l], c1\<lparr>light_cmd_count := light_cmd_count c1 + 1\<rparr>, b'))
           else Inr ([m], c1, b)))"

text \<open>A call of another thread that the loop can observe between two passes.\<close>

datatype light_call = CallSetLightCommand ScoutLightCmd | CallDisableLightCmdControl

fun do_light_call :: "light_call \<Rightarrow> ScoutBase \<Rightarrow> ScoutBase" where
  "do_light_call (CallSetLightCommand cmd) b = SetLightCommand cmd b"
| "do_light_call CallDisableLightCmdControl b = DisableLightCmdControl b"

text \<open>
  The loop never ends by itself. \<open>ControlLoop_while\<close> runs it for as many passes
  as the schedule is long: the \<open>k\<close>-th element of the schedule lists the setter
  calls of other threads that complete after pass \<open>k - 1\<close> and before pass \<open>k\<close>.
  The result lists what each pass sent.
\<close>

fun ControlLoop_while ::
  "header \<Rightarrow> light_call list list \<Rightarrow> loop_counters \<Rightarrow> ScoutBase \<Rightarrow>
     error + (sent list list \<times> loop_counters \<times> ScoutBase)" where
  "ControlLoop_while h [] c b = Inr ([], c, b)"
| "ControlLoop_while h (calls # rest) c b =
     (case ControlLoop_body h c (fold do_light_call calls b) of
        Inl e \<Rightarrow> Inl e
      | Inr (out, c', b') \<Rightarrow>
          (case ControlLoop_while h rest c' b' of
             Inl e \<Rightarrow> Inl e
           | Inr (outs, c'', b'') \<Rightarrow> Inr (out # outs, c'', b'')))"

text \<open>\<^verbatim>\<open>ScoutBase::ControlLoop\<close>: both counters start at 0.\<close>

definition ControlLoop ::
  "header \<Rightarrow> light_call list list \<Rightarrow> ScoutBase \<Rightarrow> error + (sent list list \<times> loop_counters \<times> ScoutBase)" where
  "ControlLoop h schedule b = ControlLoop_while h schedule \<lparr>cmd_count = 0, light_cmd_count = 0\<rparr> b"

text \<open>The count fields of the motion frames, and of the light frames, in a list of
  sent messages.\<close>

fun motion_counts :: "sent list \<Rightarrow> uint8_t list" where
  "motion_counts [] = []"
| "motion_counts (SentMotion t m # xs) = MotionControlMessage.count m # motion_counts xs"
| "motion_counts (SentLight t l # xs) = motion_counts xs"

fun light_counts :: "sent list \<Rightarrow> uint8_t list" where
  "light_counts [] = []"
| "light_counts (SentMotion t m # xs) = light_counts xs"
| "light_counts (SentLight t l # xs) = LightControlMessage.count l # light_counts xs"

text \<open>A transport has been configured for the branch the send functions take.\<close>

definition transport_configured :: "ScoutBase \<Rightarrow> bool" where
  "transport_configured b = (if can_connected b then can_if b \<noteq> None else serial_if b \<noteq> None)"

section \<open>Sample values\<close>

text \<open>
  Values for the parameters of the model, used where a statement is evaluated on
  a concrete input. The source does not contain them: the checksum is a byte
  sum over the two bytes of the id, the length and the data bytes before the
  last; the decoder reads a frame with id \<open>0x131\<close> as a motion status (linear
  velocity in bytes 0 and 1, angular velocity in bytes 2 and 3, low byte first),
  a frame with id \<open>0x151\<close> as a system status, and gives any other frame a tag
  that the reducer does not handle. \<open>sample_status_msg\<close> is a message with a
  payload of every kind, to be given a tag.
\<close>

definition sample_checksum :: "32 word \<Rightarrow> uint8_t list \<Rightarrow> uint8_t \<Rightarrow> uint8_t" where
  "sample_checksum ident bytes dlc =
     ucast ident + ucast (drop_bit 8 ident) + dlc + sum_list (take (unat dlc - 1) bytes)"

definition sample_status_msg :: ScoutStatusMessage where
  "sample_status_msg =
     \<lparr>updated_msg_type = ScoutStatusMsgTypeOther 0,
      motion_status_msg =
        \<lparr>MotionStatusMessage.linear_velocity = \<lparr>high_byte = 0x03, low_byte = 0xE8\<rparr>,
         MotionStatusMessage.angular_velocity = \<lparr>high_byte = 0xFC, low_byte = 0x18\<rparr>\<rparr>,
      light_status_msg =
        \<lparr>LightStatusMessage.light_ctrl_enable = 1, LightStatusMessage.front_light_mode = 1,
         LightStatusMessage.front_light_custom = 30, LightStatusMessage.rear_light_mode = 2,
         LightStatusMessage.rear_light_custom = 40\<rparr>,
      system_status_msg =
        \<lparr>SystemStatusMessage.base_state = 1, SystemStatusMessage.control_mode = 1,
         SystemStatusMessage.battery_voltage = \<lparr>high_byte = 0x01, low_byte = 0x70\<rparr>,
         SystemStatusMessage.fault_code = \<lparr>high_byte = 0x01, low_byte = 0x02\<rparr>\<rparr>,
      motor_driver_status_msg =
        \<lparr>MotorDriverStatusMessage.current = \<lparr>high_byte = 0x00, low_byte = 0x64\<rparr>,
         MotorDriverStatusMessage.rpm = \<lparr>high_byte = 0xFF, low_byte = 0x9C\<rparr>,
         MotorDriverStatusMessage.temperature = 0x28\<rparr>\<rparr>"

definition sample_unpack :: "can_frame \<Rightarrow> ScoutStatusMessage" where
  "sample_unpack f =
     (if can_id f = 0x131 then
        sample_status_msg\<lparr>
          updated_msg_type := ScoutMotionStatusMsg,
          motion_status_msg :=
            \<lparr>MotionStatusMessage.linear_velocity = \<lparr>high_byte = data f ! 1, low_byte = data f ! 0\<rparr>,
             MotionStatusMessage.angular_velocity = \<lparr>high_byte = data f ! 3, low_byte = data f ! 2\<rparr>\<rparr>\<rparr>
      else if can_id f = 0x151 then
        sample_status_msg\<lparr>
          updated_msg_type := ScoutSystemStatusMsg,
          system_status_msg :=
            \<lparr>SystemStatusMessage.base_state = data f ! 0,
             SystemStatusMessage.control_mode = data f ! 1,
             SystemStatusMessage.battery_voltage = \<lparr>high_byte = data f ! 3, low_byte = data f ! 2\<rparr>,
             SystemStatusMessage.fault_code = \<lparr>high_byte = data f ! 5, low_byte = data f ! 4\<rparr>\<rparr>\<rparr>
      else sample_status_msg)"

definition sample_header :: header where
  "sample_header =
     \<lparr>LIGHT_DISABLE_CTRL = 0x00,
      LIGHT_ENABLE_CTRL = 0x01,
      LIGHT_MODE_CONST_OFF = 0x00,
      CTRL_MODE_CMD_CAN = 0x01,
      CTRL_MODE_CMD_UART = 0x02,
      CAN_MSG_MOTION_CONTROL_CMD_ID = 0x130,
      FRAME_MOTION_CONTROL_CMD_ID = 0x01,
      CAN_MSG_LIGHT_CONTROL_CMD_ID = 0x140,
      FRAME_LIGHT_CONTROL_CMD_ID = 0x02,
      min_linear_velocity = Finite (- 3 / 2),
      max_linear_velocity = Finite (3 / 2),
      min_angular_velocity = Finite (- 1 / 2),
      max_angular_velocity = Finite (1 / 2),
      Agilex_CANMsgChecksum = sample_checksum,
      UnpackScoutCANFrameToMsg = sample_unpack,
      motion_raw = (\<lambda>m. [(case MotionControlMessage.control_mode m of None \<Rightarrow> 0 | Some v \<Rightarrow> v),
                          MotionControlMessage.fault_clear_flag m,
                          linear_velocity_cmd m, angular_velocity_cmd m,
                          MotionControlMessage.reserved0 m, reserved1 m,
                          MotionControlMessage.count m, 0]),
      motion_len = 8,
      light_raw = (\<lambda>l. [LightControlMessage.light_ctrl_enable l,
                         LightControlMessage.front_light_mode l,
                         LightControlMessage.front_light_custom l,
                         LightControlMessage.rear_light_mode l,
                         LightControlMessage.rear_light_custom l,
                         LightControlMessage.reserved0 l,
                         LightControlMessage.count l, 0]),
      light_len = 8,
      serial_opens = (\<lambda>dev baud. dev = ''/dev/ttyUSB0'')\<rparr>"

text \<open>An object before any call: nothing configured, every number 0, four motors.\<close>

definition zero_MotorState :: MotorState where
  "zero_MotorState = \<lparr>MotorState.current = 0, MotorState.rpm = 0, MotorState.temperature = 0\<rparr>"

definition zero_ScoutState :: ScoutState where
  "zero_ScoutState =
     \<lparr>ScoutState.base_state = 0, ScoutState.control_mode = 0, ScoutState.fault_code = 0,
      ScoutState.battery_voltage = 0,
      motor_states = [zero_MotorState, zero_MotorState, zero_MotorState, zero_MotorState],
      light_control_enabled = False,
      front_light_state = \<lparr>mode = 0, custom_value = 0\<rparr>,
      rear_light_state = \<lparr>mode = 0, custom_value = 0\<rparr>,
      ScoutState.linear_velocity = 0, ScoutState.angular_velocity = 0\<rparr>"

definition fresh_ScoutBase :: ScoutBase where
  "fresh_ScoutBase =
     \<lparr>can_if = None, serial_if = None, can_connected = False, serial_connected = False,
      serial_parser_callback_set = False, cmd_thread_started = False,
      current_motion_cmd =
        \<lparr>ScoutMotionCmd.linear_velocity = 0, ScoutMotionCmd.angular_velocity = 0,
         ScoutMotionCmd.fault_clear_flag = 0\<rparr>,
      current_light_cmd =
        \<lparr>front_mode = 0, front_custom_value = 0, rear_mode = 0, rear_custom_value = 0\<rparr>,
      light_ctrl_enabled = False, light_ctrl_requested = False,
      scout_state = zero_ScoutState\<rparr>"

section \<open>Properties of the reducer\<close>

lemma assemble_bytes_add: "assemble_bytes p = uint (low_byte p) + 256 * uint (high_byte p)"
proof -
  have "uint (low_byte p) + push_bit 8 (uint (high_byte p)) =
        uint (low_byte p) OR push_bit 8 (uint (high_byte p))"
    by (rule disjunctive_add) (auto simp: bit_push_bit_iff bit_uint_iff dest: bit_imp_le_length)
  then show ?thesis
    by (simp add: assemble_bytes_def push_bit_eq_mult)
qed

lemma assemble_bytes_range: "0 \<le> assemble_bytes p \<and> assemble_bytes p < 65536"
proof -
  have "uint (low_byte p) < 256" "uint (high_byte p) < 256"
    using uint_bounded [of "low_byte p"] uint_bounded [of "high_byte p"] by simp_all
  then show ?thesis
    unfolding assemble_bytes_add by simp
qed

lemma assemble_bytes_word:
  "(word_of_int (assemble_bytes p) :: 16 word) = ucast (low_byte p) OR push_bit 8 (ucast (high_byte p))"
  unfolding assemble_bytes_def
  by (rule bit_word_eqI) (auto simp: bit_simps)

lemma assemble_bytes_unat:
  "assemble_bytes p = uint (ucast (low_byte p) OR push_bit 8 (ucast (high_byte p)) :: 16 word)"
proof -
  have "uint (word_of_int (assemble_bytes p) :: 16 word) = assemble_bytes p"
    using assemble_bytes_range [of p] by (simp add: uint_word_of_int)
  then show ?thesis
    by (simp add: assemble_bytes_word)
qed

lemma to_int16_assemble_bytes:
  "to_int16 (assemble_bytes p) = sint (ucast (low_byte p) OR push_bit 8 (ucast (high_byte p)) :: 16 word)"
  by (simp add: to_int16_def assemble_bytes_word)

lemma to_int16_mod: "to_int16 e = (e + 32768) mod 65536 - 32768"
  by (simp add: to_int16_def int_word_sint)

lemma to_int16_range:
  assumes "0 \<le> e" "e < 65536"
  shows "to_int16 e = (if e < 32768 then e else e - 65536)"
proof (cases "e < 32768")
  case True
  have "(e + 32768) mod 65536 = e + 32768"
    using assms True by (intro mod_pos_pos_trivial) linarith+
  with True show ?thesis
    by (simp add: to_int16_mod)
next
  case False
  have "(e + 32768) mod 65536 = (e + 32768 - 65536) mod 65536"
    by (simp only: minus_mod_self2)
  also have "\<dots> = e + 32768 - 65536"
    using assms False by (intro mod_pos_pos_trivial) linarith+
  finally show ?thesis
    using False by (simp add: to_int16_mod)
qed

lemma to_int16_assemble_bytes_arith:
  "to_int16 (assemble_bytes p) =
     (if uint (high_byte p) < 128 then uint (low_byte p) + 256 * uint (high_byte p)
      else uint (low_byte p) + 256 * uint (high_byte p) - 65536)"
proof -
  have b: "0 \<le> uint (low_byte p)" "uint (low_byte p) < 256"
    using uint_bounded [of "low_byte p"] by simp_all
  have "assemble_bytes p < 32768 \<longleftrightarrow> uint (high_byte p) < 128"
    unfolding assemble_bytes_add using b by linarith
  then show ?thesis
    using to_int16_range [of "assemble_bytes p"] assemble_bytes_range [of p]
    by (simp add: assemble_bytes_add)
qed

text \<open>
  Claim C3. For a motion status message the reducer sets the linear velocity,
  and in the same way the angular velocity, to the signed 16-bit value
  \<open>low byte OR (high byte << 8)\<close> divided by 1000; the bytes \<open>0xE8\<close> (low) and
  \<open>0x03\<close> (high) give the linear velocity 1.
\<close>

theorem UpdateScoutState_motion_velocity:
  "updated_msg_type status_msg = ScoutMotionStatusMsg \<longrightarrow>
     ScoutState.linear_velocity (UpdateScoutState h status_msg state) =
       real_of_int (sint (ucast (low_byte (MotionStatusMessage.linear_velocity (motion_status_msg status_msg)))
          OR push_bit 8 (ucast (high_byte (MotionStatusMessage.linear_velocity (motion_status_msg status_msg)))) :: 16 word)) / 1000
   \<and> ScoutState.angular_velocity (UpdateScoutState h status_msg state) =
       real_of_int (sint (ucast (low_byte (MotionStatusMessage.angular_velocity (motion_status_msg status_msg)))
          OR push_bit 8 (ucast (high_byte (MotionStatusMessage.angular_velocity (motion_status_msg status_msg)))) :: 16 word)) / 1000
   \<and> (low_byte (MotionStatusMessage.linear_velocity (motion_status_msg status_msg)) = 0xE8 \<and>
      high_byte (MotionStatusMessage.linear_velocity (motion_status_msg status_msg)) = 0x03 \<longrightarrow>
      ScoutState.linear_velocity (UpdateScoutState h status_msg state) = 1)"
  by (simp add: UpdateScoutState_def Let_def to_int16_assemble_bytes)

theorem UpdateScoutState_motion_velocity_witness:
  "updated_msg_type (sample_unpack \<lparr>can_id = 0x131, can_dlc = 8, data = [0xE8, 0x03, 0x18, 0xFC, 0, 0, 0, 0x39]\<rparr>) = ScoutMotionStatusMsg
   \<and> ScoutState.linear_velocity (UpdateScoutState sample_header
        (sample_unpack \<lparr>can_id = 0x131, can_dlc = 8, data = [0xE8, 0x03, 0x18, 0xFC, 0, 0, 0, 0x39]\<rparr>) zero_ScoutState) = 1
   \<and> ScoutState.angular_velocity (UpdateScoutState sample_header
        (sample_unpack \<lparr>can_id = 0x131, can_dlc = 8, data = [0xE8, 0x03, 0x18, 0xFC, 0, 0, 0, 0x39]\<rparr>) zero_ScoutState) = - 1"
  using UpdateScoutState_motion_velocity [of
    "sample_unpack \<lparr>can_id = 0x131, can_dlc = 8, data = [0xE8, 0x03, 0x18, 0xFC, 0, 0, 0, 0x39]\<rparr>"
    sample_header zero_ScoutState]
  by (simp add: sample_unpack_def)

text \<open>
  Claim C4. For a system status message the reducer sets the battery voltage to
  the unsigned 16-bit value \<open>low byte OR (high byte << 8)\<close> divided by 10 and the
  fault code to the unsigned 16-bit value assembled the same way, unscaled; the
  battery bytes \<open>0x70\<close> (low) and \<open>0x01\<close> (high) give 36.8.
\<close>

theorem UpdateScoutState_system_status:
  "updated_msg_type status_msg = ScoutSystemStatusMsg \<longrightarrow>
     ScoutState.battery_voltage (UpdateScoutState h status_msg state) =
       real (unat (ucast (low_byte (SystemStatusMessage.battery_voltage (system_status_msg status_msg)))
          OR push_bit 8 (ucast (high_byte (SystemStatusMessage.battery_voltage (system_status_msg status_msg)))) :: 16 word)) / 10
   \<and> ScoutState.fault_code (UpdateScoutState h status_msg state) =
       (ucast (low_byte (SystemStatusMessage.fault_code (system_status_msg status_msg)))
          OR push_bit 8 (ucast (high_byte (SystemStatusMessage.fault_code (system_status_msg status_msg)))) :: 16 word)
   \<and> (low_byte (SystemStatusMessage.battery_voltage (system_status_msg status_msg)) = 0x70 \<and>
      high_byte (SystemStatusMessage.battery_voltage (system_status_msg status_msg)) = 0x01 \<longrightarrow>
      ScoutState.battery_voltage (UpdateScoutState h status_msg state) = 36.8)"
  apply (simp add: UpdateScoutState_def Let_def assemble_bytes_word)
  apply (simp add: assemble_bytes_unat)
  done


theorem UpdateScoutState_system_status_witness:
  "updated_msg_type (sample_status_msg\<lparr>updated_msg_type := ScoutSystemStatusMsg\<rparr>) = ScoutSystemStatusMsg
   \<and> ScoutState.battery_voltage (UpdateScoutState sample_header
        (sample_status_msg\<lparr>updated_msg_type := ScoutSystemStatusMsg\<rparr>) zero_ScoutState) = 36.8
   \<and> ScoutState.fault_code (UpdateScoutState sample_header
        (sample_status_msg\<lparr>updated_msg_type := ScoutSystemStatusMsg\<rparr>) zero_ScoutState) = 0x0102"
  using UpdateScoutState_system_status [of
    "sample_status_msg\<lparr>updated_msg_type := ScoutSystemStatusMsg\<rparr>" sample_header zero_ScoutState]
  by (simp add: sample_status_msg_def)

lemma length_update_motor: "length (update_motor i msg ms) = length ms"
  by (simp add: update_motor_def)

lemma nth_update_motor_other: "j \<noteq> i \<Longrightarrow> update_motor i msg ms ! j = ms ! j"
  by (simp add: update_motor_def)

text \<open>
  Claim C5. The reducer changes only the fields that the kind of the message
  owns: the state afterwards is the state before with at most the two
  velocities replaced (motion), the light flag and the two light states (light),
  control mode, base state, battery voltage and fault code (system), or the
  motor array (motor \<open>N\<close>), of which every slot but \<open>N - 1\<close> and the length stay
  as they were.
\<close>

theorem UpdateScoutState_frame:
  "(updated_msg_type status_msg = ScoutMotionStatusMsg \<longrightarrow>
      UpdateScoutState h status_msg state =
        state\<lparr>ScoutState.linear_velocity := ScoutState.linear_velocity (UpdateScoutState h status_msg state),
              ScoutState.angular_velocity := ScoutState.angular_velocity (UpdateScoutState h status_msg state)\<rparr>)
   \<and> (updated_msg_type status_msg = ScoutLightStatusMsg \<longrightarrow>
      UpdateScoutState h status_msg state =
        state\<lparr>light_control_enabled := light_control_enabled (UpdateScoutState h status_msg state),
              front_light_state := front_light_state (UpdateScoutState h status_msg state),
              rear_light_state := rear_light_state (UpdateScoutState h status_msg state)\<rparr>)
   \<and> (updated_msg_type status_msg = ScoutSystemStatusMsg \<longrightarrow>
      UpdateScoutState h status_msg state =
        state\<lparr>ScoutState.control_mode := ScoutState.control_mode (UpdateScoutState h status_msg state),
              ScoutState.base_state := ScoutState.base_state (UpdateScoutState h status_msg state),
              ScoutState.battery_voltage := ScoutState.battery_voltage (UpdateScoutState h status_msg state),
              ScoutState.fault_code := ScoutState.fault_code (UpdateScoutState h status_msg state)\<rparr>)
   \<and> (updated_msg_type status_msg = ScoutMotor1DriverStatusMsg \<longrightarrow>
      UpdateScoutState h status_msg state =
        state\<lparr>motor_states := motor_states (UpdateScoutState h status_msg state)\<rparr>
      \<and> length (motor_states (UpdateScoutState h status_msg state)) = length (motor_states state)
      \<and> (\<forall>j. j \<noteq> 0 \<longrightarrow>
            motor_states (UpdateScoutState h status_msg state) ! j = motor_states state ! j))
   \<and> (updated_msg_type status_msg = ScoutMotor2DriverStatusMsg \<longrightarrow>
      UpdateScoutState h status_msg state =
        state\<lparr>motor_states := motor_states (UpdateScoutState h status_msg state)\<rparr>
      \<and> length (motor_states (UpdateScoutState h status_msg state)) = length (motor_states state)
      \<and> (\<forall>j. j \<noteq> 1 \<longrightarrow>
            motor_states (UpdateScoutState h status_msg state) ! j = motor_states state ! j))
   \<and> (updated_msg_type status_msg = ScoutMotor3DriverStatusMsg \<longrightarrow>
      UpdateScoutState h status_msg state =
        state\<lparr>motor_states := motor_states (UpdateScoutState h status_msg state)\<rparr>
      \<and> length (motor_states (UpdateScoutState h status_msg state)) = length (motor_states state)
      \<and> (\<forall>j. j \<noteq> 2 \<longrightarrow>
            motor_states (UpdateScoutState h status_msg state) ! j = motor_states state ! j))
   \<and> (updated_msg_type status_msg = ScoutMotor4DriverStatusMsg \<longrightarrow>
      UpdateScoutState h status_msg state =
        state\<lparr>motor_states := motor_states (UpdateScoutState h status_msg state)\<rparr>
      \<and> length (motor_states (UpdateScoutState h status_msg state)) = length (motor_states state)
      \<and> (\<forall>j. j \<noteq> 3 \<longrightarrow>
            motor_states (UpdateScoutState h status_msg state) ! j = motor_states state ! j))"
  by (simp add: UpdateScoutState_def Let_def length_update_motor nth_update_motor_other)

theorem UpdateScoutState_frame_witness:
  "UpdateScoutState sample_header (sample_status_msg\<lparr>updated_msg_type := ScoutMotionStatusMsg\<rparr>) zero_ScoutState =
     zero_ScoutState\<lparr>ScoutState.linear_velocity := 1, ScoutState.angular_velocity := - 1\<rparr>
   \<and> UpdateScoutState sample_header (sample_status_msg\<lparr>updated_msg_type := ScoutLightStatusMsg\<rparr>) zero_ScoutState =
     zero_ScoutState\<lparr>light_control_enabled := True,
       front_light_state := \<lparr>mode = 1, custom_value = 30\<rparr>,
       rear_light_state := \<lparr>mode = 2, custom_value = 40\<rparr>\<rparr>
   \<and> UpdateScoutState sample_header (sample_status_msg\<lparr>updated_msg_type := ScoutSystemStatusMsg\<rparr>) zero_ScoutState =
     zero_ScoutState\<lparr>ScoutState.control_mode := 1, ScoutState.base_state := 1,
       ScoutState.battery_voltage := 36.8, ScoutState.fault_code := 258\<rparr>
   \<and> UpdateScoutState sample_header (sample_status_msg\<lparr>updated_msg_type := ScoutMotor1DriverStatusMsg\<rparr>) zero_ScoutState =
     zero_ScoutState\<lparr>motor_states :=
       [\<lparr>MotorState.current = 10, MotorState.rpm = - 100, MotorState.temperature = 40\<rparr>,
        zero_MotorState, zero_MotorState, zero_MotorState]\<rparr>
   \<and> UpdateScoutState sample_header (sample_status_msg\<lparr>updated_msg_type := ScoutMotor2DriverStatusMsg\<rparr>) zero_ScoutState =
     zero_ScoutState\<lparr>motor_states :=
       [zero_MotorState,
        \<lparr>MotorState.current = 10, MotorState.rpm = - 100, MotorState.temperature = 40\<rparr>,
        zero_MotorState, zero_MotorState]\<rparr>
   \<and> UpdateScoutState sample_header (sample_status_msg\<lparr>updated_msg_type := ScoutMotor3DriverStatusMsg\<rparr>) zero_ScoutState =
     zero_ScoutState\<lparr>motor_states :=
       [zero_MotorState, zero_MotorState,
        \<lparr>MotorState.current = 10, MotorState.rpm = - 100, MotorState.temperature = 40\<rparr>,
        zero_MotorState]\<rparr>
   \<and> UpdateScoutState sample_header (sample_status_msg\<lparr>updated_msg_type := ScoutMotor4DriverStatusMsg\<rparr>) zero_ScoutState =
     zero_ScoutState\<lparr>motor_states :=
       [zero_MotorState, zero_MotorState, zero_MotorState,
        \<lparr>MotorState.current = 10, MotorState.rpm = - 100, MotorState.temperature = 40\<rparr>]\<rparr>"
  using
    UpdateScoutState_frame [of "sample_status_msg\<lparr>updated_msg_type := ScoutMotionStatusMsg\<rparr>" sample_header zero_ScoutState]
    UpdateScoutState_frame [of "sample_status_msg\<lparr>updated_msg_type := ScoutLightStatusMsg\<rparr>" sample_header zero_ScoutState]
    UpdateScoutState_frame [of "sample_status_msg\<lparr>updated_msg_type := ScoutSystemStatusMsg\<rparr>" sample_header zero_ScoutState]
    UpdateScoutState_frame [of "sample_status_msg\<lparr>updated_msg_type := ScoutMotor1DriverStatusMsg\<rparr>" sample_header zero_ScoutState]
    UpdateScoutState_frame [of "sample_status_msg\<lparr>updated_msg_type := ScoutMotor2DriverStatusMsg\<rparr>" sample_header zero_ScoutState]
    UpdateScoutState_frame [of "sample_status_msg\<lparr>updated_msg_type := ScoutMotor3DriverStatusMsg\<rparr>" sample_header zero_ScoutState]
    UpdateScoutState_frame [of "sample_status_msg\<lparr>updated_msg_type := ScoutMotor4DriverStatusMsg\<rparr>" sample_header zero_ScoutState]
  by (simp add: UpdateScoutState_def sample_status_msg_def sample_header_def zero_ScoutState_def
      update_motor_def assemble_bytes_def to_int16_def Let_def)

text \<open>
  Claim C10. A message whose tag is none of the seven that the \<^verbatim>\<open>switch\<close> handles
  leaves the state as it was.
\<close>

theorem UpdateScoutState_unhandled:
  "updated_msg_type status_msg \<noteq> ScoutMotionStatusMsg \<and>
   updated_msg_type status_msg \<noteq> ScoutLightStatusMsg \<and>
   updated_msg_type status_msg \<noteq> ScoutSystemStatusMsg \<and>
   updated_msg_type status_msg \<noteq> ScoutMotor1DriverStatusMsg \<and>
   updated_msg_type status_msg \<noteq> ScoutMotor2DriverStatusMsg \<and>
   updated_msg_type status_msg \<noteq> ScoutMotor3DriverStatusMsg \<and>
   updated_msg_type status_msg \<noteq> ScoutMotor4DriverStatusMsg \<longrightarrow>
   UpdateScoutState h status_msg state = state"
  by (cases "updated_msg_type status_msg") (simp_all add: UpdateScoutState_def)


theorem UpdateScoutState_unhandled_witness:
  "updated_msg_type sample_status_msg \<noteq> ScoutMotionStatusMsg \<and>
   updated_msg_type sample_status_msg \<noteq> ScoutMotor4DriverStatusMsg \<and>
   UpdateScoutState sample_header sample_status_msg zero_ScoutState = zero_ScoutState"
  using UpdateScoutState_unhandled [of sample_status_msg sample_header zero_ScoutState]
  by (simp add: sample_status_msg_def)

section \<open>Properties of the receive path\<close>

lemma checksum_condition_iff:
  "checksum_condition h f \<longleftrightarrow>
     (let c = Agilex_CANMsgChecksum h (can_id f) (data f) (can_dlc f)
      in if data f ! 7 = 0 then c = 1 else c = 0)"
  by (auto simp: checksum_condition_def Let_def word_uint_eq_iff)

lemma ParseCANFrame_match_Forwarded:
  "data f ! 7 = Agilex_CANMsgChecksum h (can_id f) (data f) (can_dlc f) \<Longrightarrow>
   ParseCANFrame h f b = (Forwarded, NewStatusMsgReceivedCallback h (UnpackScoutCANFrameToMsg h f) b)"
  by (auto simp: ParseCANFrame_def checksum_condition_iff Let_def)

lemma ParseCANFrame_Discarded_unchanged:
  "ParseCANFrame h f b = (Discarded i, b') \<Longrightarrow> b' = b \<and> i = can_id f"
  by (auto simp: ParseCANFrame_def split: if_splits)

text \<open>
  Claim C1. The claim is that a frame whose last byte differs from the
  recomputed checksum is discarded. The condition of the source discards a frame
  only when the checksum is 1 and the byte is 0, or the checksum is 0 and the
  byte is not: a frame with a wrong last byte and a checksum greater than 1 is
  decoded and reduced into the state.
\<close>

theorem ParseCANFrame_mismatch_forwarded:
  "data f ! 7 \<noteq> Agilex_CANMsgChecksum h (can_id f) (data f) (can_dlc f) \<and>
   1 < unat (Agilex_CANMsgChecksum h (can_id f) (data f) (can_dlc f)) \<longrightarrow>
   ParseCANFrame h f b = (Forwarded, NewStatusMsgReceivedCallback h (UnpackScoutCANFrameToMsg h f) b)"
  by (auto simp: ParseCANFrame_def checksum_condition_iff Let_def)

theorem ParseCANFrame_mismatch_forwarded_witness:
  "Agilex_CANMsgChecksum sample_header 0x131 [0xE8, 0x03, 0, 0, 0, 0, 0, 0x26] 8 = 0x25
   \<and> [0xE8, 0x03, 0, 0, 0, 0, 0, 0x26 :: uint8_t] ! 7 = 0x26
   \<and> fst (ParseCANFrame sample_header
        \<lparr>can_id = 0x131, can_dlc = 8, data = [0xE8, 0x03, 0, 0, 0, 0, 0, 0x26]\<rparr> fresh_ScoutBase) = Forwarded
   \<and> ScoutState.linear_velocity (GetScoutState fresh_ScoutBase) = 0
   \<and> ScoutState.linear_velocity (GetScoutState (snd (ParseCANFrame sample_header
        \<lparr>can_id = 0x131, can_dlc = 8, data = [0xE8, 0x03, 0, 0, 0, 0, 0, 0x26]\<rparr> fresh_ScoutBase))) = 1"
  using ParseCANFrame_mismatch_forwarded [of
    "\<lparr>can_id = 0x131, can_dlc = 8, data = [0xE8, 0x03, 0, 0, 0, 0, 0, 0x26]\<rparr>" sample_header fresh_ScoutBase]
  by (simp add: sample_header_def sample_checksum_def sample_unpack_def GetScoutState_def
      NewStatusMsgReceivedCallback_def UpdateScoutState_def fresh_ScoutBase_def zero_ScoutState_def
      to_int16_def assemble_bytes_def Let_def)

section \<open>Properties of connecting and disconnecting\<close>

text \<open>
  Claim C6. With baud rate 0, \<open>Connect\<close> sets the CAN handle and the CAN flag and
  leaves every serial member as it was; with any other baud rate it creates the
  serial handle on the device at that rate, calls \<open>open\<close> on it, and leaves the
  CAN handle and the CAN flag as they were.
\<close>

theorem Connect_selects_one_transport:
  "(baud = 0 \<longrightarrow>
      Connect h dev baud b =
        b\<lparr>can_if := Some \<lparr>can_if_name = dev, can_receive_callback = Some ParseCANFrame_callback\<rparr>,
          can_connected := True\<rparr>
      \<and> serial_if (Connect h dev baud b) = serial_if b
      \<and> serial_connected (Connect h dev baud b) = serial_connected b
      \<and> serial_parser_callback_set (Connect h dev baud b) = serial_parser_callback_set b)
   \<and> (baud \<noteq> 0 \<longrightarrow>
      serial_if (Connect h dev baud b) =
        Some \<lparr>uart_name = dev, baud_rate = baud, is_open = serial_opens h dev baud,
              serial_receive_callback = Some ParseUARTBuffer_callback\<rparr>
      \<and> serial_connected (Connect h dev baud b) = (serial_opens h dev baud \<or> serial_connected b)
      \<and> can_if (Connect h dev baud b) = can_if b
      \<and> can_connected (Connect h dev baud b) = can_connected b)"
  by (simp add: Connect_def ConfigureCANBus_def ConfigureSerial_def Let_def)

theorem Connect_selects_one_transport_witness:
  "Connect sample_header ''can0'' 0 fresh_ScoutBase =
     fresh_ScoutBase\<lparr>can_if := Some \<lparr>can_if_name = ''can0'', can_receive_callback = Some ParseCANFrame_callback\<rparr>,
       can_connected := True\<rparr>
   \<and> serial_if (Connect sample_header ''can0'' 0 fresh_ScoutBase) = None
   \<and> (115200 :: int32_t) \<noteq> 0
   \<and> serial_if (Connect sample_header ''/dev/ttyUSB0'' 115200 fresh_ScoutBase) =
        Some \<lparr>uart_name = ''/dev/ttyUSB0'', baud_rate = 115200, is_open = True,
              serial_receive_callback = Some ParseUARTBuffer_callback\<rparr>
   \<and> can_if (Connect sample_header ''/dev/ttyUSB0'' 115200 fresh_ScoutBase) = None
   \<and> can_connected (Connect sample_header ''/dev/ttyUSB0'' 115200 fresh_ScoutBase) = False"
  using Connect_selects_one_transport [of 0 sample_header "''can0''" fresh_ScoutBase]
    Connect_selects_one_transport [of 115200 sample_header "''/dev/ttyUSB0''" fresh_ScoutBase]
  by (simp add: sample_header_def fresh_ScoutBase_def)

text \<open>
  Claim C9. \<open>Disconnect\<close> closes a port only when the serial flag is set and the
  port is open, and then does nothing else. With the serial flag clear, as after
  a connection over CAN, it changes nothing; in no case does it change the CAN
  handle or either connection flag.
\<close>

theorem Disconnect_closes_open_serial_only:
  "(\<not> serial_connected b \<longrightarrow> Disconnect b = Inr b)
   \<and> (\<not> serial_connected b \<longrightarrow> Disconnect (Connect h dev 0 b) = Inr (Connect h dev 0 b))
   \<and> (\<forall>b'. Disconnect b = Inr b' \<longrightarrow>
         can_if b' = can_if b \<and> can_connected b' = can_connected b \<and>
         serial_connected b' = serial_connected b)
   \<and> (\<forall>b'. Disconnect b = Inr b' \<and> b' \<noteq> b \<longrightarrow>
         serial_connected b \<and>
         (\<exists>s. serial_if b = Some s \<and> is_open s \<and> b' = b\<lparr>serial_if := Some (s\<lparr>is_open := False\<rparr>)\<rparr>))
   \<and> (\<forall>s. serial_connected b \<and> serial_if b = Some s \<and> is_open s \<longrightarrow>
         Disconnect b = Inr (b\<lparr>serial_if := Some (s\<lparr>is_open := False\<rparr>)\<rparr>))"
proof (intro conjI allI impI)
  assume "\<not> serial_connected b"
  then show "Disconnect b = Inr b"
    by (simp add: Disconnect_def)
next
  assume "\<not> serial_connected b"
  then have "\<not> serial_connected (Connect h dev 0 b)"
    by (simp add: Connect_def ConfigureCANBus_def)
  then show "Disconnect (Connect h dev 0 b) = Inr (Connect h dev 0 b)"
    by (simp add: Disconnect_def)
next
  fix b'
  assume d: "Disconnect b = Inr b'"
  have "b' = b \<or> (\<exists>s. b' = b\<lparr>serial_if := Some s\<rparr>)"
    using d by (cases "serial_if b") (auto simp: Disconnect_def split: if_splits)
  then show "can_if b' = can_if b" "can_connected b' = can_connected b"
    "serial_connected b' = serial_connected b"
    by auto
next
  fix b'
  assume d: "Disconnect b = Inr b' \<and> b' \<noteq> b"
  then show "serial_connected b"
    by (cases "serial_connected b") (auto simp: Disconnect_def)
  from d show "\<exists>s. serial_if b = Some s \<and> is_open s \<and> b' = b\<lparr>serial_if := Some (s\<lparr>is_open := False\<rparr>)\<rparr>"
    by (cases "serial_if b") (auto simp: Disconnect_def split: if_splits)
next
  fix s
  assume "serial_connected b \<and> serial_if b = Some s \<and> is_open s"
  then show "Disconnect b = Inr (b\<lparr>serial_if := Some (s\<lparr>is_open := False\<rparr>)\<rparr>)"
    by (simp add: Disconnect_def)
qed

theorem Disconnect_closes_open_serial_only_witness:
  "\<not> serial_connected fresh_ScoutBase
   \<and> Disconnect (Connect sample_header ''can0'' 0 fresh_ScoutBase) = Inr (Connect sample_header ''can0'' 0 fresh_ScoutBase)
   \<and> serial_connected (Connect sample_header ''/dev/ttyUSB0'' 115200 fresh_ScoutBase)
   \<and> Disconnect (Connect sample_header ''/dev/ttyUSB0'' 115200 fresh_ScoutBase) =
       Inr (fresh_ScoutBase\<lparr>
         serial_if := Some \<lparr>uart_name = ''/dev/ttyUSB0'', baud_rate = 115200, is_open = False,
                             serial_receive_callback = Some ParseUARTBuffer_callback\<rparr>,
         serial_connected := True, serial_parser_callback_set := True\<rparr>)"
proof -
  let ?can = "Connect sample_header ''can0'' 0 fresh_ScoutBase"
  let ?ser = "Connect sample_header ''/dev/ttyUSB0'' 115200 fresh_ScoutBase"
  let ?port = "\<lparr>uart_name = ''/dev/ttyUSB0'', baud_rate = 115200, is_open = True,
                serial_receive_callback = Some ParseUARTBuffer_callback\<rparr>"
  have fresh: "\<not> serial_connected fresh_ScoutBase"
    by (simp add: fresh_ScoutBase_def)
  have ser: "?ser = fresh_ScoutBase\<lparr>serial_if := Some ?port, serial_connected := True,
                serial_parser_callback_set := True\<rparr>"
    by (simp add: Connect_def ConfigureSerial_def sample_header_def)
  have can: "Disconnect ?can = Inr ?can"
    using Disconnect_closes_open_serial_only [of fresh_ScoutBase sample_header "''can0''"] fresh
    by blast
  have "serial_connected ?ser \<and> serial_if ?ser = Some ?port \<and> is_open ?port"
    by (simp add: ser)
  then have "Disconnect ?ser = Inr (?ser\<lparr>serial_if := Some (?port\<lparr>is_open := False\<rparr>)\<rparr>)"
    using Disconnect_closes_open_serial_only [of ?ser sample_header "''can0''"]
    by blast
  then have "Disconnect ?ser = Inr (fresh_ScoutBase\<lparr>
         serial_if := Some \<lparr>uart_name = ''/dev/ttyUSB0'', baud_rate = 115200, is_open = False,
                             serial_receive_callback = Some ParseUARTBuffer_callback\<rparr>,
         serial_connected := True, serial_parser_callback_set := True\<rparr>)"
    by (simp add: ser)
  with fresh can ser show ?thesis
    by simp
qed

text \<open>
  Two calls of \<open>Connect\<close>, first with a baud rate and then with 0, leave both flags
  set: the sends then go to the CAN bus, and \<open>Disconnect\<close> closes the serial port.
\<close>

lemma Disconnect_after_serial_then_CAN:
  assumes "baud \<noteq> 0" "serial_opens h dev baud"
  shows "\<exists>s. serial_if (Connect h can_dev 0 (Connect h dev baud b)) = Some s \<and> is_open s
           \<and> can_connected (Connect h can_dev 0 (Connect h dev baud b))
           \<and> serial_connected (Connect h can_dev 0 (Connect h dev baud b))
           \<and> Disconnect (Connect h can_dev 0 (Connect h dev baud b)) =
               Inr ((Connect h can_dev 0 (Connect h dev baud b))\<lparr>serial_if := Some (s\<lparr>is_open := False\<rparr>)\<rparr>)"
  using assms
  by (simp add: Connect_def ConfigureCANBus_def ConfigureSerial_def Disconnect_def Let_def)

section \<open>Properties of the arithmetic on doubles\<close>









section \<open>Properties of the command setters\<close>


lemma clamp_velocity_NaN: "clamp_velocity mn mx NaN = NaN"
  by (cases mx) (simp_all add: clamp_velocity_def)













section \<open>Properties of the control loop\<close>

lemma SendMotionCmd_configured:
  assumes "transport_configured b"
  shows "\<exists>t m. SendMotionCmd h n b = Inr (SentMotion t m) \<and> MotionControlMessage.count m = n"
proof (cases "can_connected b")
  case True
  with assms obtain c where "can_if b = Some c"
    by (auto simp: transport_configured_def)
  with True show ?thesis
    by (simp add: SendMotionCmd_def Let_def)
next
  case False
  with assms obtain s where "serial_if b = Some s"
    by (auto simp: transport_configured_def)
  with False show ?thesis
    by (simp add: SendMotionCmd_def Let_def)
qed

lemma SendLightCmd_configured:
  assumes "transport_configured b"
  shows "\<exists>t l. SendLightCmd h n b = Inr (SentLight t l, b\<lparr>light_ctrl_requested := False\<rparr>)
           \<and> LightControlMessage.count l = n"
proof (cases "can_connected b")
  case True
  with assms obtain c where "can_if b = Some c"
    by (auto simp: transport_configured_def)
  with True show ?thesis
    by (simp add: SendLightCmd_def Let_def)
next
  case False
  with assms obtain s where "serial_if b = Some s"
    by (auto simp: transport_configured_def)
  with False show ?thesis
    by (simp add: SendLightCmd_def Let_def)
qed

lemma ControlLoop_body_configured:
  assumes "transport_configured b"
  shows "\<exists>out. ControlLoop_body h c b =
           Inr (out,
                \<lparr>cmd_count = cmd_count c + 1,
                 light_cmd_count = (if light_ctrl_requested b then light_cmd_count c + 1
                                    else light_cmd_count c)\<rparr>,
                b\<lparr>light_ctrl_requested := False\<rparr>)
           \<and> motion_counts out = [cmd_count c]
           \<and> light_counts out = (if light_ctrl_requested b then [light_cmd_count c] else [])"
proof -
  obtain t m where m: "SendMotionCmd h (cmd_count c) b = Inr (SentMotion t m)"
      "MotionControlMessage.count m = cmd_count c"
    using SendMotionCmd_configured [OF assms] by blast
  obtain t' l where l: "SendLightCmd h (light_cmd_count c) b =
        Inr (SentLight t' l, b\<lparr>light_ctrl_requested := False\<rparr>)"
      "LightControlMessage.count l = light_cmd_count c"
    using SendLightCmd_configured [OF assms] by blast
  show ?thesis
  proof (cases "light_ctrl_requested b")
    case True
    then show ?thesis
      using m l by (simp add: ControlLoop_body_def Let_def)
  next
    case False
    then have "b\<lparr>light_ctrl_requested := False\<rparr> = b"
      by simp
    with False show ?thesis
      using m by (simp add: ControlLoop_body_def Let_def)
  qed
qed

lemma transport_configured_light_call:
  "transport_configured (do_light_call x b) = transport_configured b"
  by (cases x) (simp_all add: transport_configured_def SetLightCommand_def DisableLightCmdControl_def)

lemma transport_configured_light_calls:
  "transport_configured (fold do_light_call xs b) = transport_configured b"
  by (induction xs arbitrary: b) (simp_all add: transport_configured_light_call)

lemma transport_configured_cleared:
  "transport_configured (b\<lparr>light_ctrl_requested := False\<rparr>) = transport_configured b"
  by (simp add: transport_configured_def)

lemma light_ctrl_requested_light_call:
  "light_ctrl_requested (do_light_call x b)"
  by (cases x) (simp_all add: SetLightCommand_def DisableLightCmdControl_def)

lemma light_ctrl_requested_light_calls:
  "light_ctrl_requested (fold do_light_call xs b) \<longleftrightarrow> xs \<noteq> [] \<or> light_ctrl_requested b"
proof (induction xs arbitrary: b)
  case Nil
  show ?case by simp
next
  case (Cons x xs)
  show ?case
    by (simp add: Cons.IH light_ctrl_requested_light_call)
qed

lemma count_from_Cons:
  fixes x :: uint8_t
  shows "x # map (\<lambda>i. x + 1 + of_nat i) [0..<n] = map (\<lambda>i. x + of_nat i) [0..<Suc n]"
proof -
  have "[0..<Suc n] = 0 # map Suc [0..<n]"
    by (simp only: map_Suc_upt upt_conv_Cons [of 0 "Suc n"] zero_less_Suc)
  then show ?thesis
    by (simp only: list.map map_map comp_def of_nat_Suc of_nat_0 add_0_right)
      (simp add: add.assoc add.commute)
qed

lemma ControlLoop_while_run:
  assumes "transport_configured b"
  shows "\<exists>outs c' b'. ControlLoop_while h schedule c b = Inr (outs, c', b')
     \<and> length outs = length schedule
     \<and> (\<forall>k<length schedule. motion_counts (outs ! k) = [cmd_count c + of_nat k])
     \<and> (\<forall>k<length schedule. length (light_counts (outs ! k)) =
           (if schedule ! k \<noteq> [] \<or> (k = 0 \<and> light_ctrl_requested b) then 1 else 0))
     \<and> (\<exists>n. concat (map light_counts outs) = map (\<lambda>i. light_cmd_count c + of_nat i) [0..<n])
     \<and> transport_configured b'
     \<and> (schedule \<noteq> [] \<longrightarrow> \<not> light_ctrl_requested b')"
  using assms
proof (induction schedule arbitrary: c b)
  case Nil
  then show ?case by simp
next
  case (Cons calls rest)
  let ?b1 = "fold do_light_call calls b"
  let ?c1 = "\<lparr>cmd_count = cmd_count c + 1,
              light_cmd_count = (if light_ctrl_requested ?b1 then light_cmd_count c + 1
                                 else light_cmd_count c)\<rparr>"
  let ?b2 = "?b1\<lparr>light_ctrl_requested := False\<rparr>"
  have conf1: "transport_configured ?b1"
    using Cons.prems by (simp add: transport_configured_light_calls)
  obtain out where out: "ControlLoop_body h c ?b1 = Inr (out, ?c1, ?b2)"
      "motion_counts out = [cmd_count c]"
      "light_counts out = (if light_ctrl_requested ?b1 then [light_cmd_count c] else [])"
    using ControlLoop_body_configured [OF conf1, of h c] by blast
  have conf2: "transport_configured ?b2"
    using conf1 by (simp add: transport_configured_cleared)
  obtain outs c' b' where rest: "ControlLoop_while h rest ?c1 ?b2 = Inr (outs, c', b')"
      "length outs = length rest"
      "\<forall>k<length rest. motion_counts (outs ! k) = [cmd_count ?c1 + of_nat k]"
      "\<forall>k<length rest. length (light_counts (outs ! k)) =
           (if rest ! k \<noteq> [] \<or> (k = 0 \<and> light_ctrl_requested ?b2) then 1 else 0)"
      "\<exists>n. concat (map light_counts outs) = map (\<lambda>i. light_cmd_count ?c1 + of_nat i) [0..<n]"
      "transport_configured b'"
      "rest \<noteq> [] \<longrightarrow> \<not> light_ctrl_requested b'"
    using Cons.IH [OF conf2, of ?c1] by blast
  have run: "ControlLoop_while h (calls # rest) c b = Inr (out # outs, c', b')"
    using out(1) rest(1) by simp
  have len: "length (out # outs) = length (calls # rest)"
    using rest(2) by simp
  have mc: "\<forall>k<length (calls # rest). motion_counts ((out # outs) ! k) = [cmd_count c + of_nat k]"
  proof (intro allI impI)
    fix k assume "k < length (calls # rest)"
    then show "motion_counts ((out # outs) ! k) = [cmd_count c + of_nat k]"
      using out(2) rest(3) by (cases k) (simp_all add: add.assoc)
  qed
  have req1: "light_ctrl_requested ?b1 \<longleftrightarrow> calls \<noteq> [] \<or> light_ctrl_requested b"
    by (rule light_ctrl_requested_light_calls)
  have lc: "\<forall>k<length (calls # rest). length (light_counts ((out # outs) ! k)) =
           (if (calls # rest) ! k \<noteq> [] \<or> (k = 0 \<and> light_ctrl_requested b) then 1 else 0)"
  proof (intro allI impI)
    fix k assume "k < length (calls # rest)"
    then show "length (light_counts ((out # outs) ! k)) =
           (if (calls # rest) ! k \<noteq> [] \<or> (k = 0 \<and> light_ctrl_requested b) then 1 else 0)"
      using out(3) rest(4) req1 by (cases k) auto
  qed
  obtain n where n: "concat (map light_counts outs) =
      map (\<lambda>i. light_cmd_count ?c1 + of_nat i) [0..<n]"
    using rest(5) by blast
  have cc: "\<exists>n. concat (map light_counts (out # outs)) =
           map (\<lambda>i. light_cmd_count c + of_nat i) [0..<n]"
  proof (cases "light_ctrl_requested ?b1")
    case True
    have "concat (map light_counts (out # outs)) =
        light_cmd_count c # map (\<lambda>i. light_cmd_count c + 1 + of_nat i) [0..<n]"
      using out(3) True n by simp
    also have "\<dots> = map (\<lambda>i. light_cmd_count c + of_nat i) [0..<Suc n]"
      by (rule count_from_Cons)
    finally show ?thesis
      by blast
  next
    case False
    then have "concat (map light_counts (out # outs)) =
        map (\<lambda>i. light_cmd_count c + of_nat i) [0..<n]"
      using out(3) n by simp
    then show ?thesis
      by blast
  qed
  have fin: "calls # rest \<noteq> [] \<longrightarrow> \<not> light_ctrl_requested b'"
  proof (cases rest)
    case Nil
    then have "b' = ?b2"
      using rest(1) by simp
    then show ?thesis by simp
  next
    case (Cons a list)
    then show ?thesis
      using rest(7) by simp
  qed
  show ?case
    using run len mc lc cc rest(6) fin by blast
qed

text \<open>After \<open>Connect\<close> on an object with no CAN connection, and after any \<open>Connect\<close> with
  baud rate 0, a transport is configured; on an object with none, the first send
  of the loop goes through an empty pointer.\<close>

lemma transport_configured_Connect:
  "baud = 0 \<or> \<not> can_connected b \<Longrightarrow> transport_configured (Connect h dev baud b)"
  by (auto simp: transport_configured_def Connect_def ConfigureCANBus_def ConfigureSerial_def Let_def)

lemma ControlLoop_unconfigured:
  "\<not> can_connected b \<Longrightarrow> serial_if b = None \<Longrightarrow> ControlLoop h (calls # rest) b = Inl NullTransport"
proof -
  assume a: "\<not> can_connected b" "serial_if b = None"
  have "\<not> can_connected (fold do_light_call calls b) \<and> serial_if (fold do_light_call calls b) = None"
    using a
  proof (induction calls arbitrary: b)
    case Nil
    then show ?case by simp
  next
    case (Cons x xs)
    have "\<not> can_connected (do_light_call x b) \<and> serial_if (do_light_call x b) = None"
      using Cons.prems by (cases x) (simp_all add: SetLightCommand_def DisableLightCmdControl_def)
    then show ?case
      using Cons.IH [of "do_light_call x b"] by simp
  qed
  then have "SendMotionCmd h 0 (fold do_light_call calls b) = Inl NullTransport"
    by (simp add: SendMotionCmd_def Let_def)
  then show ?thesis
    by (simp add: ControlLoop_def ControlLoop_body_def)
qed

text \<open>
  Claim C7. With a transport configured, every pass of the control loop sends
  exactly one motion command, and the one of pass \<open>k\<close> (from 0) carries the count
  \<open>k mod 256\<close>: each count is the previous one plus 1 in eight bits. This holds
  for every schedule of light setter calls and whatever the request flag was at
  the start, and the light commands are numbered on their own from 0.
\<close>

theorem ControlLoop_motion_count:
  "transport_configured b \<longrightarrow>
   (\<exists>outs c' b'. ControlLoop h schedule b = Inr (outs, c', b')
      \<and> length outs = length schedule
      \<and> (\<forall>k<length schedule. map unat (motion_counts (outs ! k)) = [k mod 256])
      \<and> (\<forall>k. Suc k < length schedule \<longrightarrow>
            motion_counts (outs ! Suc k) = map (\<lambda>n. n + 1) (motion_counts (outs ! k)))
      \<and> (\<exists>n. concat (map light_counts outs) = map of_nat [0..<n]))"
proof
  assume conf: "transport_configured b"
  let ?c = "\<lparr>cmd_count = 0, light_cmd_count = 0\<rparr>"
  obtain outs c' b' where run: "ControlLoop_while h schedule ?c b = Inr (outs, c', b')"
      "length outs = length schedule"
      "\<forall>k<length schedule. motion_counts (outs ! k) = [cmd_count ?c + of_nat k]"
      "\<exists>n. concat (map light_counts outs) = map (\<lambda>i. light_cmd_count ?c + of_nat i) [0..<n]"
    using ControlLoop_while_run [OF conf, of h schedule ?c] by blast
  have mc: "\<forall>k<length schedule. motion_counts (outs ! k) = [of_nat k]"
    using run(3) by simp
  have m1: "\<forall>k<length schedule. map unat (motion_counts (outs ! k)) = [k mod 256]"
    using mc by (simp add: unat_of_nat)
  have m2: "\<forall>k. Suc k < length schedule \<longrightarrow>
            motion_counts (outs ! Suc k) = map (\<lambda>n. n + 1) (motion_counts (outs ! k))"
  proof (intro allI impI)
    fix k assume k: "Suc k < length schedule"
    then have "motion_counts (outs ! Suc k) = [of_nat (Suc k)]" "motion_counts (outs ! k) = [of_nat k]"
      using mc by simp_all
    then show "motion_counts (outs ! Suc k) = map (\<lambda>n. n + 1) (motion_counts (outs ! k))"
      by simp
  qed
  have lc: "\<exists>n. concat (map light_counts outs) = map of_nat [0..<n]"
    using run(4) by simp
  have "ControlLoop h schedule b = Inr (outs, c', b')"
    using run(1) by (simp add: ControlLoop_def)
  then show "\<exists>outs c' b'. ControlLoop h schedule b = Inr (outs, c', b')
      \<and> length outs = length schedule
      \<and> (\<forall>k<length schedule. map unat (motion_counts (outs ! k)) = [k mod 256])
      \<and> (\<forall>k. Suc k < length schedule \<longrightarrow>
            motion_counts (outs ! Suc k) = map (\<lambda>n. n + 1) (motion_counts (outs ! k)))
      \<and> (\<exists>n. concat (map light_counts outs) = map of_nat [0..<n])"
    using run(2) m1 m2 lc by blast
qed

theorem ControlLoop_motion_count_witness:
  "transport_configured (Connect sample_header ''can0'' 0 fresh_ScoutBase)
   \<and> (\<exists>outs c' b'.
        ControlLoop sample_header (replicate 257 [CallDisableLightCmdControl])
          (Connect sample_header ''can0'' 0 fresh_ScoutBase) = Inr (outs, c', b')
        \<and> map unat (motion_counts (outs ! 0)) = [0]
        \<and> map unat (motion_counts (outs ! 1)) = [1]
        \<and> map unat (motion_counts (outs ! 255)) = [255]
        \<and> map unat (motion_counts (outs ! 256)) = [0])"
proof -
  let ?b = "Connect sample_header ''can0'' 0 fresh_ScoutBase"
  let ?s = "replicate 257 [CallDisableLightCmdControl]"
  have conf: "transport_configured ?b"
    by (simp add: transport_configured_def Connect_def ConfigureCANBus_def)
  obtain outs c' b' where run: "ControlLoop sample_header ?s ?b = Inr (outs, c', b')"
      "\<forall>k<length ?s. map unat (motion_counts (outs ! k)) = [k mod 256]"
    using ControlLoop_motion_count [of ?b sample_header ?s] conf by blast
  have "map unat (motion_counts (outs ! 0)) = [0]" "map unat (motion_counts (outs ! 1)) = [1]"
    "map unat (motion_counts (outs ! 255)) = [255]" "map unat (motion_counts (outs ! 256)) = [0]"
    using run(2) by simp_all
  with run(1) have "ControlLoop sample_header ?s ?b = Inr (outs, c', b')
        \<and> map unat (motion_counts (outs ! 0)) = [0]
        \<and> map unat (motion_counts (outs ! 1)) = [1]
        \<and> map unat (motion_counts (outs ! 255)) = [255]
        \<and> map unat (motion_counts (outs ! 256)) = [0]"
    by (intro conjI)
  then have "\<exists>outs c' b'. ControlLoop sample_header ?s ?b = Inr (outs, c', b')
        \<and> map unat (motion_counts (outs ! 0)) = [0]
        \<and> map unat (motion_counts (outs ! 1)) = [1]
        \<and> map unat (motion_counts (outs ! 255)) = [255]
        \<and> map unat (motion_counts (outs ! 256)) = [0]"
    by (intro exI)
  with conf show ?thesis
    by (intro conjI)
qed

text \<open>
  Claim C8. Each of the two light setters sets the request flag. With a
  transport configured, a pass of the loop sends one light command when the flag
  is set at that pass and none otherwise, and the flag is clear after the pass.
  So, from a state with the flag clear, for every schedule of setter calls, pass
  \<open>k\<close> sends exactly one light command when at least one setter call came since
  the pass before, and no light command when none did.
\<close>

theorem light_request_consumed_once:
  "light_ctrl_requested (SetLightCommand cmd b)
   \<and> light_ctrl_requested (DisableLightCmdControl b)
   \<and> (transport_configured b \<longrightarrow>
        (\<exists>out c' b'. ControlLoop_body h c b = Inr (out, c', b')
           \<and> length (light_counts out) = (if light_ctrl_requested b then 1 else 0)
           \<and> \<not> light_ctrl_requested b'))
   \<and> (transport_configured b \<and> \<not> light_ctrl_requested b \<longrightarrow>
        (\<exists>outs c' b'. ControlLoop h schedule b = Inr (outs, c', b')
           \<and> length outs = length schedule
           \<and> (\<forall>k<length schedule.
                 length (light_counts (outs ! k)) = (if schedule ! k = [] then 0 else 1))
           \<and> \<not> light_ctrl_requested b'))"
proof (intro conjI impI)
  show "light_ctrl_requested (SetLightCommand cmd b)"
    by (simp add: SetLightCommand_def)
  show "light_ctrl_requested (DisableLightCmdControl b)"
    by (simp add: DisableLightCmdControl_def)
next
  assume conf: "transport_configured b"
  obtain out where "ControlLoop_body h c b =
           Inr (out,
                \<lparr>cmd_count = cmd_count c + 1,
                 light_cmd_count = (if light_ctrl_requested b then light_cmd_count c + 1
                                    else light_cmd_count c)\<rparr>,
                b\<lparr>light_ctrl_requested := False\<rparr>)"
      "light_counts out = (if light_ctrl_requested b then [light_cmd_count c] else [])"
    using ControlLoop_body_configured [OF conf, of h c] by blast
  then have "ControlLoop_body h c b = Inr (out,
                \<lparr>cmd_count = cmd_count c + 1,
                 light_cmd_count = (if light_ctrl_requested b then light_cmd_count c + 1
                                    else light_cmd_count c)\<rparr>,
                b\<lparr>light_ctrl_requested := False\<rparr>)
      \<and> length (light_counts out) = (if light_ctrl_requested b then 1 else 0)
      \<and> \<not> light_ctrl_requested (b\<lparr>light_ctrl_requested := False\<rparr>)"
    by simp
  then show "\<exists>out c' b'. ControlLoop_body h c b = Inr (out, c', b')
           \<and> length (light_counts out) = (if light_ctrl_requested b then 1 else 0)
           \<and> \<not> light_ctrl_requested b'"
    by blast
next
  assume a: "transport_configured b \<and> \<not> light_ctrl_requested b"
  let ?c = "\<lparr>cmd_count = 0, light_cmd_count = 0\<rparr>"
  obtain outs c' b' where run: "ControlLoop_while h schedule ?c b = Inr (outs, c', b')"
      "length outs = length schedule"
      "\<forall>k<length schedule. length (light_counts (outs ! k)) =
           (if schedule ! k \<noteq> [] \<or> (k = 0 \<and> light_ctrl_requested b) then 1 else 0)"
      "schedule \<noteq> [] \<longrightarrow> \<not> light_ctrl_requested b'"
    using ControlLoop_while_run [of b h schedule ?c] a by blast
  have l: "\<forall>k<length schedule. length (light_counts (outs ! k)) = (if schedule ! k = [] then 0 else 1)"
    using run(3) a by simp
  have f: "\<not> light_ctrl_requested b'"
  proof (cases schedule)
    case Nil
    then have "b' = b" using run(1) by simp
    with a show ?thesis by simp
  next
    case (Cons x xs)
    with run(4) show ?thesis by simp
  qed
  have "ControlLoop h schedule b = Inr (outs, c', b')"
    using run(1) by (simp add: ControlLoop_def)
  then show "\<exists>outs c' b'. ControlLoop h schedule b = Inr (outs, c', b')
           \<and> length outs = length schedule
           \<and> (\<forall>k<length schedule.
                 length (light_counts (outs ! k)) = (if schedule ! k = [] then 0 else 1))
           \<and> \<not> light_ctrl_requested b'"
    using run(2) l f by blast
qed

theorem light_request_consumed_once_witness:
  "transport_configured (Connect sample_header ''can0'' 0 fresh_ScoutBase)
   \<and> \<not> light_ctrl_requested (Connect sample_header ''can0'' 0 fresh_ScoutBase)
   \<and> (\<exists>outs c' b'.
        ControlLoop sample_header
          [[], [CallSetLightCommand \<lparr>front_mode = 1, front_custom_value = 0, rear_mode = 1, rear_custom_value = 0\<rparr>,
                CallDisableLightCmdControl], [], [CallDisableLightCmdControl]]
          (Connect sample_header ''can0'' 0 fresh_ScoutBase) = Inr (outs, c', b')
        \<and> map (\<lambda>out. length (light_counts out)) outs = [0, 1, 0, 1]
        \<and> \<not> light_ctrl_requested b')"
proof -
  let ?b = "Connect sample_header ''can0'' 0 fresh_ScoutBase"
  let ?s = "[[], [CallSetLightCommand \<lparr>front_mode = 1, front_custom_value = 0, rear_mode = 1, rear_custom_value = 0\<rparr>,
                CallDisableLightCmdControl], [], [CallDisableLightCmdControl]]"
  have conf: "transport_configured ?b \<and> \<not> light_ctrl_requested ?b"
    by (simp add: transport_configured_def Connect_def ConfigureCANBus_def fresh_ScoutBase_def)
  obtain outs c' b' where run: "ControlLoop sample_header ?s ?b = Inr (outs, c', b')"
      "length outs = length ?s"
      "\<forall>k<length ?s. length (light_counts (outs ! k)) = (if ?s ! k = [] then 0 else 1)"
      "\<not> light_ctrl_requested b'"
    using light_request_consumed_once [of
        "\<lparr>front_mode = 1, front_custom_value = 0, rear_mode = 1, rear_custom_value = 0\<rparr>"
        ?b sample_header "\<lparr>cmd_count = 0, light_cmd_count = 0\<rparr>" ?s] conf by blast
  have "length outs = 4"
    using run(2) by simp
  then obtain o0 o1 o2 o3 where outs: "outs = [o0, o1, o2, o3]"
    by (auto simp: length_Suc_conv numeral_eq_Suc)
  have "length (light_counts (outs ! 0)) = 0" "length (light_counts (outs ! 1)) = 1"
    "length (light_counts (outs ! 2)) = 0" "length (light_counts (outs ! 3)) = 1"
    using run(3) by simp_all
  then have "map (\<lambda>out. length (light_counts out)) outs = [0, 1, 0, 1]"
    by (simp add: outs)
  with run(1) run(4) have "ControlLoop sample_header ?s ?b = Inr (outs, c', b')
        \<and> map (\<lambda>out. length (light_counts out)) outs = [0, 1, 0, 1]
        \<and> \<not> light_ctrl_requested b'"
    by (intro conjI)
  then have "\<exists>outs c' b'. ControlLoop sample_header ?s ?b = Inr (outs, c', b')
        \<and> map (\<lambda>out. length (light_counts out)) outs = [0, 1, 0, 1]
        \<and> \<not> light_ctrl_requested b'"
    by (intro exI)
  with conf show ?thesis
    by simp
qed

end
